theory Spec2Isabelle
  imports Main "HOL-Library.Sublist"
begin

section \<open>The expression tree and its collaborators\<close>

text \<open>
  The unit under study is \<^verbatim>\<open>src/ir/drop.h\<close>: the two functions
  \<^verbatim>\<open>getDroppedChildrenAndAppend\<close> and
  \<^verbatim>\<open>getDroppedUnconditionalChildrenAndAppend\<close>. Everything they call lives in
  other headers (\<^verbatim>\<open>wasm.h\<close>, \<^verbatim>\<open>ir/effects.h\<close>, \<^verbatim>\<open>ir/iteration.h\<close>,
  \<^verbatim>\<open>ir/branch-utils.h\<close>, \<^verbatim>\<open>wasm-builder.h\<close>). The tree, the verdict record and
  the builder are modelled below from the specification's interface description; the
  two effect analyzers are taken as parameters of the functions, since they are engines
  of their own.
\<close>

subsection \<open>Types, names and node kinds\<close>

text \<open>
  Modelled from the spec: the result type of a node (\<^verbatim>\<open>wasm::Type\<close> of \<^verbatim>\<open>wasm.h\<close>,
  which is not among the sources). A type is \<^emph>\<open>none\<close>, \<^emph>\<open>unreachable\<close>, or one of
  the value types; the value types are the concrete ones.
\<close>

datatype Type = none | unreachable | i32 | i64 | f32 | f64 | v128

definition isConcrete :: "Type \<Rightarrow> bool" where
  "isConcrete t = (t \<noteq> none \<and> t \<noteq> unreachable)"

text \<open>
  Modelled from the spec: a branch-target name (\<^verbatim>\<open>wasm::Name\<close>), which is either
  absent or a string; \<^verbatim>\<open>Name::is()\<close> tells whether it is present.
\<close>

type_synonym Name = "string option"

definition Name_is :: "Name \<Rightarrow> bool" where
  "Name_is n = (n \<noteq> None)"

text \<open>
  Modelled from the spec: the closed enumeration of node kinds (\<^verbatim>\<open>Expression::Id\<close>).
  The spec names the conditional, the exception-dispatch construct, the value-pop, the
  block, the loop and the branch; the drop wrapper is what the builder makes; every
  other node is a plain computation, told apart by its mnemonic.
\<close>

datatype Id = BlockId | IfId | LoopId | BreakId | TryId | PopId | DropId | PlainId string

text \<open>
  Modelled from the spec: an expression node carries its kind, its result type, the
  branch-target name it declares (if any) and its direct children in evaluation order.
\<close>

datatype Expression =
  Expression (kind: Id) (type: Type) (name: Name) (operands: "Expression list")

text \<open>
  Modelled from the spec: the Child Enumerator (\<^verbatim>\<open>ChildIterator\<close> of
  \<^verbatim>\<open>ir/iteration.h\<close>) exposes the direct children of a node, left to right.
\<close>

definition ChildIterator :: "Expression \<Rightarrow> Expression list" where
  "ChildIterator curr' = operands curr'"

text \<open>
  Modelled from the spec: the Branch-Target Oracle (\<^verbatim>\<open>BranchUtils::getDefinedName\<close>)
  reports the name a node declares as a branch target.
\<close>

definition getDefinedName :: "Expression \<Rightarrow> Name" where
  "getDefinedName curr' = name curr'"

subsection \<open>Side-effect verdicts\<close>

text \<open>
  Modelled from the spec: a side-effect verdict (the object that \<^verbatim>\<open>EffectAnalyzer\<close>
  and \<^verbatim>\<open>ShallowEffectAnalyzer\<close> of \<^verbatim>\<open>ir/effects.h\<close> construct) holds whether there
  are side effects, other than a trap, that cannot be silently discarded, and an
  independent "may trap" flag. The verdict reports unremovable side effects when either
  component is set; clearing \<open>trap\<close> therefore changes the answer exactly for a node
  whose only effect is a possible trap.
\<close>

record Effects =
  sideEffects :: bool
  trap :: bool

definition hasUnremovableSideEffects :: "Effects \<Rightarrow> bool" where
  "hasUnremovableSideEffects effects = (sideEffects effects \<or> trap effects)"

text \<open>
  An analyzer maps the pass options, the module and a node to a verdict. The deep
  analyzer (\<^verbatim>\<open>EffectAnalyzer\<close>) judges a whole subtree, the shallow one
  (\<^verbatim>\<open>ShallowEffectAnalyzer\<close>) a node without its children. Both are parameters.
\<close>

type_synonym ('o, 'm) analyzer = "'o \<Rightarrow> 'm \<Rightarrow> Expression \<Rightarrow> Effects"

subsection \<open>The node builder\<close>

text \<open>
  Modelled from the spec: the Node Builder (\<^verbatim>\<open>Builder\<close> of \<^verbatim>\<open>wasm-builder.h\<close>)
  allocates a drop wrapper around one node, a sequencing block over an ordered list of
  nodes, and a two-element sequence, which is a block of the two. New nodes declare no
  branch-target name. A drop yields no value, and does not return when its operand does
  not; an unnamed block has the type of its final element, and does not return when it
  yields no value and one of its elements does not return.
\<close>

definition makeDrop :: "Expression \<Rightarrow> Expression" where
  "makeDrop v =
     Expression DropId (if type v = unreachable then unreachable else none) None [v]"

definition blockType :: "Expression list \<Rightarrow> Type" where
  "blockType items =
     (if items = [] then none
      else if type (last items) = none \<and> list_ex (\<lambda>e. type e = unreachable) items
      then unreachable
      else type (last items))"

definition makeBlock :: "Expression list \<Rightarrow> Expression" where
  "makeBlock items = Expression BlockId (blockType items) None items"

definition makeSequence :: "Expression \<Rightarrow> Expression \<Rightarrow> Expression" where
  "makeSequence left right = makeBlock [left, right]"

section \<open>The drop-insertion engine\<close>

text \<open>
  The loop of \<^verbatim>\<open>getDroppedChildrenAndAppend\<close> (lines 42 to 53) over the children
  still to visit, with \<open>contents\<close> the vector built so far: a child without unremovable
  side effects in its deep verdict is skipped (\<^verbatim>\<open>continue\<close>); any other child is
  pushed, inside a new drop when its type is concrete and as it is otherwise.
\<close>

fun dropChildren ::
  "('o, 'm) analyzer \<Rightarrow> 'm \<Rightarrow> 'o \<Rightarrow> Expression list \<Rightarrow> Expression list \<Rightarrow> Expression list"
where
  "dropChildren EffectAnalyzer wasm options [] contents = contents"
| "dropChildren EffectAnalyzer wasm options (child # rest) contents =
     (if \<not> hasUnremovableSideEffects (EffectAnalyzer options wasm child)
      then dropChildren EffectAnalyzer wasm options rest contents
      else if isConcrete (type child)
      then dropChildren EffectAnalyzer wasm options rest (contents @ [makeDrop child])
      else dropChildren EffectAnalyzer wasm options rest (contents @ [child]))"

text \<open>
  \<^verbatim>\<open>getDroppedChildrenAndAppend(curr, wasm, options, last)\<close>: run the loop over the
  children of \<open>curr\<close>, push \<open>last\<close>, and return the only element when there is just
  one, a new block of all of them otherwise. (The parameters \<open>curr\<close> and \<open>last\<close> are
  written \<open>curr'\<close> and \<open>last'\<close>, since HOL has constants of both names.)
\<close>

definition getDroppedChildrenAndAppend ::
  "('o, 'm) analyzer \<Rightarrow> Expression \<Rightarrow> 'm \<Rightarrow> 'o \<Rightarrow> Expression \<Rightarrow> Expression"
where
  "getDroppedChildrenAndAppend EffectAnalyzer curr' wasm options last' =
     (let contents = dropChildren EffectAnalyzer wasm options (ChildIterator curr') [];
          contents = contents @ [last']
      in if length contents = 1 then contents ! 0 else makeBlock contents)"

text \<open>
  \<^verbatim>\<open>getDroppedUnconditionalChildrenAndAppend(curr, wasm, options, last)\<close>: take the
  shallow verdict of \<open>curr\<close>, clear its trap flag when \<open>last\<close> is unreachable, and keep
  \<open>curr\<close> whole inside a drop, followed by \<open>last\<close>, when the verdict reports
  unremovable side effects, or \<open>curr\<close> is an if, a try or a pop, or declares a
  branch-target name; otherwise hand over to \<^verbatim>\<open>getDroppedChildrenAndAppend\<close>.
\<close>

definition getDroppedUnconditionalChildrenAndAppend ::
  "('o, 'm) analyzer \<Rightarrow> ('o, 'm) analyzer \<Rightarrow> Expression \<Rightarrow> 'm \<Rightarrow> 'o \<Rightarrow> Expression
     \<Rightarrow> Expression"
where
  "getDroppedUnconditionalChildrenAndAppend ShallowEffectAnalyzer EffectAnalyzer
       curr' wasm options last' =
     (let effects = ShallowEffectAnalyzer options wasm curr';
          effects = (if type last' = unreachable then effects\<lparr>trap := False\<rparr> else effects)
      in if hasUnremovableSideEffects effects \<or> kind curr' = IfId \<or> kind curr' = TryId
            \<or> kind curr' = PopId \<or> Name_is (getDefinedName curr')
         then makeSequence (makeDrop curr') last'
         else getDroppedChildrenAndAppend EffectAnalyzer curr' wasm options last')"

section \<open>Sample trees and analyzers\<close>

text \<open>
  A small analyzer pair to run the engine on: a call has a side effect of its own that
  cannot be discarded, a division may trap and the unreachable instruction does, every
  other kind of node is clean by itself. The deep verdict of a subtree joins the
  shallow verdicts of all its nodes.
\<close>

definition sampleShallow :: "(unit, unit) analyzer" where
  "sampleShallow options wasm e =
     \<lparr>sideEffects = (kind e = PlainId ''call''),
      trap = (kind e = PlainId ''i32.div_s'' \<or> kind e = PlainId ''unreachable'')\<rparr>"

fun anyNode :: "(Expression \<Rightarrow> bool) \<Rightarrow> Expression \<Rightarrow> bool" where
  "anyNode p (Expression k t n ops) = (p (Expression k t n ops) \<or> list_ex (anyNode p) ops)"

definition sampleDeep :: "(unit, unit) analyzer" where
  "sampleDeep options wasm e =
     \<lparr>sideEffects = anyNode (\<lambda>x. sideEffects (sampleShallow options wasm x)) e,
      trap = anyNode (\<lambda>x. trap (sampleShallow options wasm x)) e\<rparr>"

definition const1 :: Expression where
  "const1 = Expression (PlainId ''i32.const'') i32 None []"

definition callF :: Expression where
  "callF = Expression (PlainId ''call'') i32 None []"

definition callVoid :: Expression where
  "callVoid = Expression (PlainId ''call'') none None []"

definition nop :: Expression where
  "nop = Expression (PlainId ''nop'') none None []"

definition unreachableInstr :: Expression where
  "unreachableInstr = Expression (PlainId ''unreachable'') unreachable None []"

definition localGet :: Expression where
  "localGet = Expression (PlainId ''local.get'') i32 None []"

definition divide :: "Expression \<Rightarrow> Expression \<Rightarrow> Expression" where
  "divide a b = Expression (PlainId ''i32.div_s'') i32 None [a, b]"

definition ifElse :: "Type \<Rightarrow> Expression \<Rightarrow> Expression \<Rightarrow> Expression \<Rightarrow> Expression" where
  "ifElse t c a b = Expression IfId t None [c, a, b]"

definition eqz :: "Expression \<Rightarrow> Expression" where
  "eqz a = Expression (PlainId ''i32.eqz'') i32 None [a]"

definition ifThen :: "Expression \<Rightarrow> Expression \<Rightarrow> Expression" where
  "ifThen c a = Expression IfId none None [c, a]"

definition unnamedBlock :: "Type \<Rightarrow> Expression list \<Rightarrow> Expression" where
  "unnamedBlock t items = Expression BlockId t None items"

definition namedBlock :: "string \<Rightarrow> Type \<Rightarrow> Expression list \<Rightarrow> Expression" where
  "namedBlock l t items = Expression BlockId t (Some l) items"

lemmas sample_defs =
  sampleShallow_def sampleDeep_def const1_def callF_def callVoid_def nop_def
  unreachableInstr_def localGet_def divide_def eqz_def ifElse_def ifThen_def
  unnamedBlock_def namedBlock_def

lemmas engine_defs =
  getDroppedUnconditionalChildrenAndAppend_def getDroppedChildrenAndAppend_def
  ChildIterator_def getDefinedName_def Name_is_def hasUnremovableSideEffects_def
  isConcrete_def makeSequence_def makeBlock_def makeDrop_def blockType_def

section \<open>Properties\<close>

subsection \<open>Conditional retention\<close>

text \<open>
  Claim C2. For every node \<open>curr\<close> that is an if and every trailing expression, the
  top-level entry point returns exactly the two-element sequence of the drop of \<open>curr\<close>
  and the trailing expression. The node sits untouched under the drop, and the result is
  the same whatever the deep analyzer says about the condition and the arms: the children
  are never looked at.
\<close>

theorem if_retained_whole:
  assumes "kind curr' = IfId"
  shows "getDroppedUnconditionalChildrenAndAppend ShallowEffectAnalyzer EffectAnalyzer
           curr' wasm options last'
         = makeSequence (makeDrop curr') last'
       \<and> operands (getDroppedUnconditionalChildrenAndAppend ShallowEffectAnalyzer
           EffectAnalyzer curr' wasm options last') = [makeDrop curr', last']
       \<and> kind (makeDrop curr') = DropId \<and> operands (makeDrop curr') = [curr']"
  using assms
  by (simp add: getDroppedUnconditionalChildrenAndAppend_def Let_def makeSequence_def
      makeBlock_def makeDrop_def)

theorem if_retained_whole_witness:
  "kind (ifElse i32 localGet callF const1) = IfId
   \<and> getDroppedUnconditionalChildrenAndAppend sampleShallow sampleDeep
       (ifElse i32 localGet callF const1) () () localGet
     = Expression BlockId i32 None
         [Expression DropId none None [ifElse i32 localGet callF const1], localGet]"
  using if_retained_whole [of "ifElse i32 localGet callF const1" sampleShallow sampleDeep
      "()" "()" localGet]
  by (simp add: sample_defs engine_defs)

subsection \<open>What the loop computes\<close>

text \<open>
  The loop appends to \<open>contents\<close>, in order, the children that have unremovable side
  effects, each inside a drop when its type is concrete.
\<close>

lemma dropChildren_filter_map:
  "dropChildren EffectAnalyzer wasm options children contents =
     contents @ map (\<lambda>child. if isConcrete (type child) then makeDrop child else child)
       (filter (\<lambda>child. hasUnremovableSideEffects (EffectAnalyzer options wasm child))
          children)"
  by (induction children arbitrary: contents) simp_all

lemma getDroppedChildrenAndAppend_unfold:
  "getDroppedChildrenAndAppend EffectAnalyzer curr' wasm options last' =
     (if filter (\<lambda>child. hasUnremovableSideEffects (EffectAnalyzer options wasm child))
           (ChildIterator curr') = []
      then last'
      else makeBlock
        (map (\<lambda>child. if isConcrete (type child) then makeDrop child else child)
           (filter (\<lambda>child. hasUnremovableSideEffects (EffectAnalyzer options wasm child))
              (ChildIterator curr')) @ [last']))"
  by (simp add: getDroppedChildrenAndAppend_def Let_def dropChildren_filter_map)

subsection \<open>Collapse\<close>

text \<open>
  Claim C5. When no direct child of \<open>curr\<close> has unremovable side effects in its deep
  verdict, \<^verbatim>\<open>getDroppedChildrenAndAppend\<close> returns the trailing expression itself:
  no block and no sequence is put around it.
\<close>

theorem collapse_to_last:
  assumes "\<forall>child \<in> set (ChildIterator curr').
             \<not> hasUnremovableSideEffects (EffectAnalyzer options wasm child)"
  shows "getDroppedChildrenAndAppend EffectAnalyzer curr' wasm options last' = last'"
proof -
  have "filter (\<lambda>child. hasUnremovableSideEffects (EffectAnalyzer options wasm child))
          (ChildIterator curr') = []"
    using assms by (simp add: filter_empty_conv)
  then show ?thesis
    by (simp add: getDroppedChildrenAndAppend_unfold)
qed

theorem collapse_to_last_witness:
  "ChildIterator (unnamedBlock i32 [const1, localGet, const1]) = [const1, localGet, const1]
   \<and> \<not> hasUnremovableSideEffects (sampleDeep () () const1)
   \<and> \<not> hasUnremovableSideEffects (sampleDeep () () localGet)
   \<and> getDroppedChildrenAndAppend sampleDeep (unnamedBlock i32 [const1, localGet, const1])
        () () localGet = localGet"
proof -
  have h: "\<forall>child \<in> set (ChildIterator (unnamedBlock i32 [const1, localGet, const1])).
      \<not> hasUnremovableSideEffects (sampleDeep () () child)"
    by (simp add: sample_defs ChildIterator_def hasUnremovableSideEffects_def)
  from h collapse_to_last [of "unnamedBlock i32 [const1, localGet, const1]" sampleDeep
      "()" "()" localGet]
  show ?thesis
    by (simp add: unnamedBlock_def ChildIterator_def)
qed

subsection \<open>Branch-target retention\<close>

text \<open>
  Claim C6. A node that declares a branch-target name is never split: the top-level
  entry point returns the drop of the whole node followed by the trailing expression,
  whatever the analyzers say, hence also when every child is free of side effects.
\<close>

theorem branch_target_retained_whole:
  assumes "Name_is (getDefinedName curr')"
  shows "getDroppedUnconditionalChildrenAndAppend ShallowEffectAnalyzer EffectAnalyzer
           curr' wasm options last'
         = makeSequence (makeDrop curr') last'
       \<and> operands (getDroppedUnconditionalChildrenAndAppend ShallowEffectAnalyzer
           EffectAnalyzer curr' wasm options last') = [makeDrop curr', last']
       \<and> operands (makeDrop curr') = [curr']"
  using assms
  by (simp add: getDroppedUnconditionalChildrenAndAppend_def Let_def makeSequence_def
      makeBlock_def makeDrop_def)

theorem branch_target_retained_whole_witness:
  "Name_is (getDefinedName (namedBlock ''l'' i32 [const1, localGet]))
   \<and> ChildIterator (namedBlock ''l'' i32 [const1, localGet]) = [const1, localGet]
   \<and> \<not> hasUnremovableSideEffects (sampleDeep () () const1)
   \<and> \<not> hasUnremovableSideEffects (sampleDeep () () localGet)
   \<and> \<not> hasUnremovableSideEffects
        (sampleShallow () () (namedBlock ''l'' i32 [const1, localGet]))
   \<and> getDroppedUnconditionalChildrenAndAppend sampleShallow sampleDeep
       (namedBlock ''l'' i32 [const1, localGet]) () () nop
     = Expression BlockId none None
         [Expression DropId none None [namedBlock ''l'' i32 [const1, localGet]], nop]"
  using branch_target_retained_whole [of "namedBlock ''l'' i32 [const1, localGet]"
      sampleShallow sampleDeep "()" "()" nop]
  by (simp add: sample_defs engine_defs)

subsection \<open>The rule applied to each child\<close>

text \<open>
  Claim C7. \<^verbatim>\<open>getDroppedChildrenAndAppend\<close> keeps exactly the direct children whose
  deep verdict reports unremovable side effects and omits all the others; a kept child
  stands inside a drop exactly when its type is concrete, and as it is otherwise. The
  kept children, so wrapped, followed by the trailing expression, are the contents of
  the result.
\<close>

theorem per_child_rule:
  "getDroppedChildrenAndAppend EffectAnalyzer curr' wasm options last' =
     (let kept = filter (\<lambda>child. hasUnremovableSideEffects (EffectAnalyzer options wasm child))
                   (ChildIterator curr');
          contents = map (\<lambda>child. if isConcrete (type child) then makeDrop child else child)
                       kept @ [last']
      in if kept = [] then last' else makeBlock contents)"
  by (simp add: getDroppedChildrenAndAppend_unfold Let_def)

theorem per_child_rule_witness:
  "getDroppedChildrenAndAppend sampleDeep
     (unnamedBlock i32 [const1, callF, callVoid, unreachableInstr, const1]) () () nop
   = Expression BlockId unreachable None
       [Expression DropId none None [callF], callVoid, unreachableInstr, nop]"
  using per_child_rule [of sampleDeep
      "unnamedBlock i32 [const1, callF, callVoid, unreachableInstr, const1]" "()" "()" nop]
  by (simp add: sample_defs engine_defs)

subsection \<open>No reordering\<close>

text \<open>
  Claim C8. Both entry points keep the original left-to-right order. The kept children
  are a subsequence of the children of \<open>curr\<close>; \<^verbatim>\<open>getDroppedChildrenAndAppend\<close>
  returns the trailing expression alone when nothing is kept, and otherwise a block whose
  elements are the kept children, one by one in that order (each inside a drop when
  concrete), with the trailing expression last. The top-level entry point returns either
  the drop of the untouched \<open>curr\<close> followed by the trailing expression, or the result
  of \<^verbatim>\<open>getDroppedChildrenAndAppend\<close>.
\<close>

theorem no_reordering:
  "(let kept = filter (\<lambda>child. hasUnremovableSideEffects (EffectAnalyzer options wasm child))
                 (ChildIterator curr');
        wrapped = map (\<lambda>child. if isConcrete (type child) then makeDrop child else child)
                    kept;
        out = getDroppedChildrenAndAppend EffectAnalyzer curr' wasm options last';
        out' = getDroppedUnconditionalChildrenAndAppend ShallowEffectAnalyzer
                 EffectAnalyzer curr' wasm options last'
    in subseq kept (ChildIterator curr')
       \<and> (kept = [] \<and> out = last' \<or> kept \<noteq> [] \<and> operands out = wrapped @ [last'])
       \<and> (operands out' = [makeDrop curr', last'] \<and> operands (makeDrop curr') = [curr']
          \<or> out' = out))"
proof -
  have order: "subseq (filter (\<lambda>child. hasUnremovableSideEffects
      (EffectAnalyzer options wasm child)) (ChildIterator curr')) (ChildIterator curr')"
    by (rule subseq_filter_left)
  have top: "operands (getDroppedUnconditionalChildrenAndAppend ShallowEffectAnalyzer
        EffectAnalyzer curr' wasm options last') = [makeDrop curr', last']
      \<and> operands (makeDrop curr') = [curr']
    \<or> getDroppedUnconditionalChildrenAndAppend ShallowEffectAnalyzer
        EffectAnalyzer curr' wasm options last'
      = getDroppedChildrenAndAppend EffectAnalyzer curr' wasm options last'"
    by (simp add: getDroppedUnconditionalChildrenAndAppend_def Let_def makeSequence_def
        makeBlock_def makeDrop_def)
  from order top show ?thesis
    by (simp add: Let_def getDroppedChildrenAndAppend_unfold makeBlock_def)
qed

theorem no_reordering_witness:
  "subseq [callF, callVoid] [callF, const1, callVoid, localGet]
   \<and> operands (getDroppedChildrenAndAppend sampleDeep
        (unnamedBlock i32 [callF, const1, callVoid, localGet]) () () localGet)
     = [makeDrop callF, callVoid, localGet]
   \<and> getDroppedUnconditionalChildrenAndAppend sampleShallow sampleDeep
        (unnamedBlock i32 [callF, const1, callVoid, localGet]) () () localGet
     = getDroppedChildrenAndAppend sampleDeep
        (unnamedBlock i32 [callF, const1, callVoid, localGet]) () () localGet"
  using no_reordering [of sampleDeep "()" "()"
      "unnamedBlock i32 [callF, const1, callVoid, localGet]" localGet sampleShallow]
  by (simp add: sample_defs engine_defs Let_def)

subsection \<open>Children keep their traps\<close>



subsection \<open>Trap suppression at the top level\<close>

text \<open>
  Claim C4. When the trailing expression is unreachable, the top-level entry point
  clears the trap flag of the shallow verdict of \<open>curr\<close> and then tests
  unremovability on what is left: \<open>curr\<close> is kept whole under a drop exactly when
  the trap-cleared verdict still reports unremovable side effects, or \<open>curr\<close> is an
  if, a try or a pop, or declares a branch-target name, and its children are handed to
  \<^verbatim>\<open>getDroppedChildrenAndAppend\<close> otherwise. So the trap flag itself plays no
  part in the result, every other effect of the verdict still does, and a node whose
  shallow verdict holds nothing but a possible trap, and which is no if, try or pop and
  declares no branch-target name, is not kept whole: the entry point descends into its
  children.
\<close>

theorem trap_suppressed_when_last_unreachable:
  assumes "type last' = unreachable"
  shows "getDroppedUnconditionalChildrenAndAppend ShallowEffectAnalyzer EffectAnalyzer
           curr' wasm options last'
         = (if hasUnremovableSideEffects
                 ((ShallowEffectAnalyzer options wasm curr')\<lparr>trap := False\<rparr>)
               \<or> kind curr' = IfId \<or> kind curr' = TryId \<or> kind curr' = PopId
               \<or> Name_is (getDefinedName curr')
            then makeSequence (makeDrop curr') last'
            else getDroppedChildrenAndAppend EffectAnalyzer curr' wasm options last')
       \<and> hasUnremovableSideEffects
             ((ShallowEffectAnalyzer options wasm curr')\<lparr>trap := False\<rparr>)
           = sideEffects (ShallowEffectAnalyzer options wasm curr')
       \<and> getDroppedUnconditionalChildrenAndAppend ShallowEffectAnalyzer EffectAnalyzer
           curr' wasm options last'
         = getDroppedUnconditionalChildrenAndAppend
             (\<lambda>options wasm e. (ShallowEffectAnalyzer options wasm e)\<lparr>trap := False\<rparr>)
             EffectAnalyzer curr' wasm options last'
       \<and> (\<not> sideEffects (ShallowEffectAnalyzer options wasm curr')
            \<and> kind curr' \<noteq> IfId \<and> kind curr' \<noteq> TryId \<and> kind curr' \<noteq> PopId
            \<and> \<not> Name_is (getDefinedName curr')
          \<longrightarrow> getDroppedUnconditionalChildrenAndAppend ShallowEffectAnalyzer EffectAnalyzer
                curr' wasm options last'
              = getDroppedChildrenAndAppend EffectAnalyzer curr' wasm options last')
       \<and> (sideEffects (ShallowEffectAnalyzer options wasm curr')
          \<longrightarrow> getDroppedUnconditionalChildrenAndAppend ShallowEffectAnalyzer EffectAnalyzer
                curr' wasm options last'
              = makeSequence (makeDrop curr') last')"
proof -
  have cleared: "hasUnremovableSideEffects
        ((ShallowEffectAnalyzer options wasm curr')\<lparr>trap := False\<rparr>)
      = sideEffects (ShallowEffectAnalyzer options wasm curr')"
    by (simp add: hasUnremovableSideEffects_def)
  have decision: "getDroppedUnconditionalChildrenAndAppend ShallowEffectAnalyzer
        EffectAnalyzer curr' wasm options last'
      = (if hasUnremovableSideEffects
              ((ShallowEffectAnalyzer options wasm curr')\<lparr>trap := False\<rparr>)
            \<or> kind curr' = IfId \<or> kind curr' = TryId \<or> kind curr' = PopId
            \<or> Name_is (getDefinedName curr')
         then makeSequence (makeDrop curr') last'
         else getDroppedChildrenAndAppend EffectAnalyzer curr' wasm options last')"
    using assms
    by (simp add: getDroppedUnconditionalChildrenAndAppend_def Let_def)
  have invariant: "getDroppedUnconditionalChildrenAndAppend ShallowEffectAnalyzer
        EffectAnalyzer curr' wasm options last'
      = getDroppedUnconditionalChildrenAndAppend
          (\<lambda>options wasm e. (ShallowEffectAnalyzer options wasm e)\<lparr>trap := False\<rparr>)
          EffectAnalyzer curr' wasm options last'"
    using assms
    by (simp add: getDroppedUnconditionalChildrenAndAppend_def Let_def)
  have descend: "getDroppedUnconditionalChildrenAndAppend ShallowEffectAnalyzer
        EffectAnalyzer curr' wasm options last'
      = getDroppedChildrenAndAppend EffectAnalyzer curr' wasm options last'"
    if "\<not> sideEffects (ShallowEffectAnalyzer options wasm curr')"
      and "kind curr' \<noteq> IfId" and "kind curr' \<noteq> TryId" and "kind curr' \<noteq> PopId"
      and "\<not> Name_is (getDefinedName curr')"
    using that by (simp add: decision cleared)
  have retain: "getDroppedUnconditionalChildrenAndAppend ShallowEffectAnalyzer
        EffectAnalyzer curr' wasm options last'
      = makeSequence (makeDrop curr') last'"
    if "sideEffects (ShallowEffectAnalyzer options wasm curr')"
    using that by (simp add: decision cleared)
  from decision cleared invariant descend retain show ?thesis
    by blast
qed

text \<open>
  The witness runs the entry point with an unreachable trailing expression on a division
  over a call, whose own verdict holds only a trap, and on the call itself, whose own
  verdict holds a side effect: the division is split and its call kept, the call is kept
  whole. With a trailing \<open>nop\<close> the division is kept whole for its trap.
\<close>

theorem trap_suppressed_when_last_unreachable_witness:
  "type unreachableInstr = unreachable
   \<and> trap (sampleShallow () () (divide localGet callF))
   \<and> \<not> sideEffects (sampleShallow () () (divide localGet callF))
   \<and> getDroppedUnconditionalChildrenAndAppend sampleShallow sampleDeep
        (divide localGet callF) () () unreachableInstr
     = getDroppedChildrenAndAppend sampleDeep (divide localGet callF) () () unreachableInstr
   \<and> getDroppedUnconditionalChildrenAndAppend sampleShallow sampleDeep
        (divide localGet callF) () () unreachableInstr
     = Expression BlockId unreachable None
         [Expression DropId none None [callF], unreachableInstr]
   \<and> sideEffects (sampleShallow () () callF)
   \<and> getDroppedUnconditionalChildrenAndAppend sampleShallow sampleDeep
        callF () () unreachableInstr
     = Expression BlockId unreachable None
         [Expression DropId none None [callF], unreachableInstr]
   \<and> getDroppedChildrenAndAppend sampleDeep callF () () unreachableInstr
     = unreachableInstr
   \<and> getDroppedUnconditionalChildrenAndAppend sampleShallow sampleDeep
        (divide localGet callF) () () nop
     = Expression BlockId none None
         [Expression DropId none None [divide localGet callF], nop]"
  using trap_suppressed_when_last_unreachable [of unreachableInstr sampleShallow
      sampleDeep "divide localGet callF" "()" "()"]
    trap_suppressed_when_last_unreachable [of unreachableInstr sampleShallow
      sampleDeep callF "()" "()"]
  by (simp add: sample_defs engine_defs)

subsection \<open>The shallow verdict against the deep one\<close>

text \<open>
  Claim C9 says that putting the deep verdict of \<open>curr\<close> in the place of the shallow
  one never changes the result. It does: for a clean operator over a call, the shallow
  verdict lets the engine split the node and keep only the call, while the deep verdict,
  which sees the call, has the whole node kept under a drop.
\<close>

theorem deep_verdict_changes_result:
  "getDroppedUnconditionalChildrenAndAppend sampleShallow sampleDeep
     (eqz callF) () () localGet
   \<noteq> getDroppedUnconditionalChildrenAndAppend sampleDeep sampleDeep
     (eqz callF) () () localGet"
  by (simp add: sample_defs engine_defs)

text \<open>
  Claim C9, amended. The top-level entry point consults a verdict of \<open>curr\<close> only
  through its unremovability once the trap flag is adjusted for the trailing expression.
  So two analyzers used for the top-level test (the shallow one and the deep one, say)
  give the same result whenever they agree on that for \<open>curr\<close>, or \<open>curr\<close> is an
  if, a try or a pop, or declares a branch-target name.
\<close>

theorem same_result_when_verdicts_agree:
  assumes "hasUnremovableSideEffects
             (if type last' = unreachable then (A options wasm curr')\<lparr>trap := False\<rparr>
              else A options wasm curr')
           = hasUnremovableSideEffects
             (if type last' = unreachable then (B options wasm curr')\<lparr>trap := False\<rparr>
              else B options wasm curr')
         \<or> kind curr' = IfId \<or> kind curr' = TryId \<or> kind curr' = PopId
         \<or> Name_is (getDefinedName curr')"
  shows "getDroppedUnconditionalChildrenAndAppend A EffectAnalyzer curr' wasm options last'
       = getDroppedUnconditionalChildrenAndAppend B EffectAnalyzer curr' wasm options last'"
  using assms
  by (auto simp add: getDroppedUnconditionalChildrenAndAppend_def Let_def)

theorem same_result_when_verdicts_agree_witness:
  "hasUnremovableSideEffects
     (if type unreachableInstr = unreachable
      then (sampleShallow () () (eqz (divide localGet const1)))\<lparr>trap := False\<rparr>
      else sampleShallow () () (eqz (divide localGet const1)))
   = hasUnremovableSideEffects
     (if type unreachableInstr = unreachable
      then (sampleDeep () () (eqz (divide localGet const1)))\<lparr>trap := False\<rparr>
      else sampleDeep () () (eqz (divide localGet const1)))
   \<and> getDroppedUnconditionalChildrenAndAppend sampleShallow sampleDeep
        (eqz (divide localGet const1)) () () unreachableInstr
     = getDroppedUnconditionalChildrenAndAppend sampleDeep sampleDeep
        (eqz (divide localGet const1)) () () unreachableInstr
   \<and> getDroppedUnconditionalChildrenAndAppend sampleDeep sampleDeep
        (eqz (divide localGet const1)) () () unreachableInstr
     = Expression BlockId unreachable None
         [Expression DropId none None [divide localGet const1], unreachableInstr]"
proof -
  have agree: "hasUnremovableSideEffects
     (if type unreachableInstr = unreachable
      then (sampleShallow () () (eqz (divide localGet const1)))\<lparr>trap := False\<rparr>
      else sampleShallow () () (eqz (divide localGet const1)))
   = hasUnremovableSideEffects
     (if type unreachableInstr = unreachable
      then (sampleDeep () () (eqz (divide localGet const1)))\<lparr>trap := False\<rparr>
      else sampleDeep () () (eqz (divide localGet const1)))"
    by (simp add: sample_defs hasUnremovableSideEffects_def)
  have out: "getDroppedUnconditionalChildrenAndAppend sampleDeep sampleDeep
        (eqz (divide localGet const1)) () () unreachableInstr
     = Expression BlockId unreachable None
         [Expression DropId none None [divide localGet const1], unreachableInstr]"
    by (simp add: sample_defs engine_defs)
  from agree out
    same_result_when_verdicts_agree [of unreachableInstr sampleShallow "()" "()"
      "eqz (divide localGet const1)" sampleDeep sampleDeep]
  show ?thesis
    by simp
qed

subsection \<open>Drops and concrete types\<close>

text \<open>
  Inside the loop of \<^verbatim>\<open>getDroppedChildrenAndAppend\<close> a drop is made for a child of
  concrete type only; a child of type none or unreachable is pushed as it is.
\<close>

lemma dropChildren_wraps_concrete_only:
  assumes "x \<in> set (dropChildren EffectAnalyzer wasm options children [])"
  shows "(\<exists>child \<in> set children. isConcrete (type child) \<and> x = makeDrop child)
       \<or> (x \<in> set children \<and> \<not> isConcrete (type x))"
  using assms
  by (auto simp add: dropChildren_filter_map split: if_splits)

text \<open>
  Claim C3 asks the same of every drop either entry point makes. The top-level entry
  point does not keep to it: on its retain-whole path it wraps \<open>curr\<close> in a drop
  without looking at the type of \<open>curr\<close>. An if without an else arm has type none and
  is always retained whole, so the result holds a drop around a node of type none.
\<close>

theorem drop_around_none_typed_if:
  "getDroppedUnconditionalChildrenAndAppend sampleShallow sampleDeep
     (ifThen localGet callVoid) () () nop
   = makeSequence (makeDrop (ifThen localGet callVoid)) nop
   \<and> operands (makeDrop (ifThen localGet callVoid)) = [ifThen localGet callVoid]
   \<and> type (ifThen localGet callVoid) = none
   \<and> \<not> isConcrete (type (ifThen localGet callVoid))"
  by (simp add: sample_defs engine_defs)

end
